theory Spec2Isabelle
  imports Complex_Main "HOL-Library.AList"
begin

section \<open>Data model of the dataset validator\<close>

text \<open>
  The validator of \<^verbatim>\<open>openmapflow/templates/integration_test_datasets.py\<close> is a
  \<^verbatim>\<open>unittest.TestCase\<close> whose methods read label tables and feature files and end
  in one assertion. A test method is modelled as a function from the world it runs in to
  its outcome and the world it leaves: \<open>Inr ()\<close> when the method returns, \<open>Inl AssertionError\<close>
  when its assertion fails, \<open>Inl e\<close> when another exception \<open>e\<close> escapes.
\<close>

datatype exn =
  AssertionError | FileNotFoundError | AttributeError | IndexError | ValueError
  | FileExistsError

type_synonym 'a result = "exn + 'a"

type_synonym path = string

text \<open>A calendar date (\<^verbatim>\<open>datetime.date\<close>, and the day of a \<^verbatim>\<open>pd.Timestamp\<close>).\<close>

record date =
  year :: int
  month :: nat
  day :: nat

text \<open>
  One row of a dataset's label table. The fields carry the column constants the module
  imports from \<^verbatim>\<open>openmapflow.constants\<close>. Coordinates are Python floats; they are read
  here as the real numbers they denote.
\<close>

record label =
  LON :: real
  LAT :: real
  START :: date
  END :: date
  SUBSET :: string
  FEATURE_FILENAME :: string
  FEATURE_PATH :: path
  ALREADY_EXISTS :: bool

text \<open>
  A numpy array is represented by its \<^verbatim>\<open>shape\<close>, the only attribute the checks read.
  \<^verbatim>\<open>labelled_array\<close> is \<open>None\<close> when the stored array is null.
\<close>

type_synonym ndarray = "nat list"

record data_instance =
  instance_lon :: real
  instance_lat :: real
  labelled_array :: "ndarray option"
  source_file :: string

text \<open>What unpickling a feature file yields: a \<^verbatim>\<open>DataInstance\<close> or some other object.\<close>

datatype pickle = DataInstance data_instance | NotDataInstance

text \<open>
  One row of the table \<^verbatim>\<open>load_all_features_as_df()\<close> returns: the attributes of the
  stored \<^verbatim>\<open>DataInstance\<close> and the file it was read from.
\<close>

record feature_row = data_instance +
  filename :: path

text \<open>
  An entry of the \<^verbatim>\<open>datasets\<close> list. \<open>labels_file\<close> is the label table its
  \<^verbatim>\<open>load_labels()\<close> reads, \<open>None\<close> when that raises \<^verbatim>\<open>FileNotFoundError\<close>;
  \<open>summary\<close> is the text its \<^verbatim>\<open>summary(...)\<close> returns.
\<close>

record labeled_dataset =
  dataset :: string
  labels_file :: "label list option"
  summary :: string

text \<open>
  What a test method prints, one constructor per \<^verbatim>\<open>print\<close> statement of the module,
  holding the values its f-string formats (the mark is \<open>True\<close> for the check mark).
\<close>

datatype line =
  Blank
  | Summary string
  | PickleStatus bool string nat nat
  | RangeStatus bool string "(nat \<times> nat) list" "(nat \<times> nat) list"
  | DateStatus bool string nat
  | MonthStatus bool string "nat list"
  | NoFeatures string
  | MismatchStatus bool string nat
  | Rule
  | Title
  | SpillOver "((string \<times> string \<times> string) \<times> nat) list"

text \<open>
  The world of a test run: the \<^verbatim>\<open>datasets\<close> list with the label sources behind it, the
  feature files on disk (what \<^verbatim>\<open>Path(p).exists()\<close> and \<^verbatim>\<open>load_feature(p)\<close> see), the
  table \<^verbatim>\<open>load_all_features_as_df()\<close> builds from the feature directory, and the
  standard output.
\<close>

record world =
  datasets :: "labeled_dataset list"
  feature_files :: "(path \<times> pickle) list"
  all_features :: "feature_row list"
  stdout :: "line list"

section \<open>Library operations the checks call\<close>

definition print :: "line \<Rightarrow> world \<Rightarrow> world" where
  "print l w = w\<lparr>stdout := stdout w @ [l]\<rparr>"

definition assertTrue :: "bool \<Rightarrow> unit result" where
  "assertTrue b = (if b then Inr () else Inl AssertionError)"

definition assertEqual :: "'a \<Rightarrow> 'a \<Rightarrow> unit result" where
  "assertEqual a b = (if a = b then Inr () else Inl AssertionError)"

text \<open>\<^verbatim>\<open>Series.apply(f)\<close> with an \<open>f\<close> that may raise: element by element, the first
  exception escapes. On an empty series \<open>f\<close> is never called.\<close>

fun series_apply :: "('a \<Rightarrow> 'b result) \<Rightarrow> 'a list \<Rightarrow> 'b list result" where
  "series_apply f [] = Inr []"
| "series_apply f (x # xs) =
     (case f x of
        Inl e \<Rightarrow> Inl e
      | Inr y \<Rightarrow> (case series_apply f xs of Inl e \<Rightarrow> Inl e | Inr ys \<Rightarrow> Inr (y # ys)))"

text \<open>\<^verbatim>\<open>Series.unique()\<close>: the distinct values in order of first appearance.\<close>

definition unique :: "'a list \<Rightarrow> 'a list" where
  "unique xs = rev (remdups (rev xs))"

text \<open>\<^verbatim>\<open>Series.value_counts()\<close>: each distinct value with its number of occurrences.
  pandas orders the pairs by count; no check depends on that order, and the pairs are kept
  in order of first appearance.\<close>

definition value_counts :: "'a list \<Rightarrow> ('a \<times> nat) list" where
  "value_counts xs = map (\<lambda>v. (v, count_list xs v)) (unique xs)"

text \<open>\<^verbatim>\<open>f.shape[-1]\<close> and \<^verbatim>\<open>f.shape[0]\<close>: indexing the empty shape of a 0-dimensional
  array raises \<^verbatim>\<open>IndexError\<close>.\<close>

definition shape_last :: "ndarray \<Rightarrow> nat result" where
  "shape_last f = (case f of [] \<Rightarrow> Inl IndexError | _ # _ \<Rightarrow> Inr (last f))"

definition shape_first :: "ndarray \<Rightarrow> nat result" where
  "shape_first f = (case f of [] \<Rightarrow> Inl IndexError | n # _ \<Rightarrow> Inr n)"

text \<open>The rows of a feature table whose \<^verbatim>\<open>labelled_array\<close> is not null, as the arrays:
  \<^verbatim>\<open>features_df[~is_empty]["labelled_array"]\<close>.\<close>

definition non_null_arrays :: "'a data_instance_scheme list \<Rightarrow> ndarray list" where
  "non_null_arrays features_df = List.map_filter labelled_array features_df"

text \<open>Modelled from the spec: \<^verbatim>\<open>load_feature\<close> of \<^verbatim>\<open>openmapflow.features\<close>, the external
  deserializer that loads a feature file from disk. A path with no file raises
  \<^verbatim>\<open>FileNotFoundError\<close>.\<close>

definition load_feature :: "world \<Rightarrow> path \<Rightarrow> pickle result" where
  "load_feature w p =
     (case map_of (feature_files w) p of
        None \<Rightarrow> Inl FileNotFoundError
      | Some f \<Rightarrow> Inr f)"

text \<open>\<^verbatim>\<open>Path(p).exists()\<close>.\<close>

definition path_exists :: "world \<Rightarrow> path \<Rightarrow> bool" where
  "path_exists w p = (map_of (feature_files w) p \<noteq> None)"

text \<open>Reading an attribute of a loaded feature (\<^verbatim>\<open>feat.__dict__\<close>, \<^verbatim>\<open>f.instance_lon\<close>):
  an object that is not a \<^verbatim>\<open>DataInstance\<close> has none of them.\<close>

definition attributes :: "pickle \<Rightarrow> data_instance result" where
  "attributes f = (case f of DataInstance d \<Rightarrow> Inr d | NotDataInstance \<Rightarrow> Inl AttributeError)"

section \<open>Loading the label tables\<close>

text \<open>
  \<^verbatim>\<open>load_labels\<close>: the dictionary from dataset name to label table, in insertion order;
  a dataset whose \<^verbatim>\<open>load_labels()\<close> raises \<^verbatim>\<open>FileNotFoundError\<close> is skipped.
\<close>

fun load_labels_loop ::
  "bool \<Rightarrow> labeled_dataset list \<Rightarrow> (string \<times> label list) list \<Rightarrow> world
    \<Rightarrow> (string \<times> label list) list \<times> world" where
  "load_labels_loop is_print [] datasets_dict w = (datasets_dict, w)"
| "load_labels_loop is_print (d # ds) datasets_dict w =
     (case labels_file d of
        None \<Rightarrow> load_labels_loop is_print ds datasets_dict w
      | Some labels \<Rightarrow>
          load_labels_loop is_print ds (AList.update (dataset d) labels datasets_dict)
            (if is_print then print (Summary (summary d)) w else w))"

definition load_labels :: "bool \<Rightarrow> world \<Rightarrow> (string \<times> label list) list \<times> world" where
  "load_labels is_print w = load_labels_loop is_print (datasets w) [] (print Blank w)"

section \<open>The checks\<close>

subsection \<open>Band-count check\<close>

definition test_all_features_have_18_bands :: "world \<Rightarrow> unit result \<times> world" where
  "test_all_features_have_18_bands w =
     (let features_df = all_features w in
      case series_apply shape_last (non_null_arrays features_df) of
        Inl e \<Rightarrow> (Inl e, w)
      | Inr bands \<Rightarrow> (assertEqual (unique bands) [18], w))"

subsection \<open>Orphan-feature check\<close>

text \<open>\<^verbatim>\<open>Path.name\<close> and \<^verbatim>\<open>Path.stem\<close> of pathlib, on the path's text: the final component,
  and that component without its last suffix (a dot that starts or ends the name starts no
  suffix).\<close>

definition path_name :: "path \<Rightarrow> string" where
  "path_name p = rev (takeWhile (\<lambda>c. c \<noteq> CHR ''/'') (rev p))"

definition stem :: "path \<Rightarrow> string" where
  "stem p =
     (let name = path_name p in
      if CHR ''.'' \<in> set name then
        (let i = length name - length (takeWhile (\<lambda>c. c \<noteq> CHR ''.'') (rev name)) - 1 in
         if 0 < i \<and> i < length name - 1 then take i name else name)
      else name)"

text \<open>The loop that collects \<^verbatim>\<open>feature_name_list\<close> over the loaded datasets.\<close>

fun feature_names :: "(string \<times> label list) list \<Rightarrow> string list \<Rightarrow> string list" where
  "feature_names [] feature_name_list = feature_name_list"
| "feature_names ((_, labels) # rest) feature_name_list =
     feature_names rest (feature_name_list @ map FEATURE_FILENAME labels)"

definition test_features_with_no_labels :: "world \<Rightarrow> unit result \<times> world" where
  "test_features_with_no_labels w0 =
     (let (datasets_dict, w) = load_labels False w0;
          feature_name_list = feature_names datasets_dict [];
          features_df = all_features w;
          features_with_no_label =
            filter (\<lambda>r. stem (filename r) \<notin> set feature_name_list) features_df;
          amount = length features_with_no_label
      in (assertTrue (amount = 0), w))"

subsection \<open>Artifact-type check\<close>

fun isinstance_DataInstance :: "pickle \<Rightarrow> bool" where
  "isinstance_DataInstance (DataInstance _) = True"
| "isinstance_DataInstance NotDataInstance = False"

fun pickle_loop ::
  "(string \<times> label list) list \<Rightarrow> bool \<Rightarrow> world \<Rightarrow> bool result \<times> world" where
  "pickle_loop [] each_pickle_file_is_data_instance w =
     (Inr each_pickle_file_is_data_instance, w)"
| "pickle_loop ((name, labels0) # rest) each_pickle_file_is_data_instance w =
     (let labels = filter ALREADY_EXISTS labels0 in
      case series_apply (load_feature w) (map FEATURE_PATH labels) of
        Inl e \<Rightarrow> (Inl e, w)
      | Inr features \<Rightarrow>
          (let good_features = filter isinstance_DataInstance features;
               ok = (length good_features = length features)
           in pickle_loop rest (each_pickle_file_is_data_instance \<and> ok)
                (print (PickleStatus ok name (length good_features) (length features)) w)))"

definition test_each_pickle_file_is_data_instance :: "world \<Rightarrow> unit result \<times> world" where
  "test_each_pickle_file_is_data_instance w0 =
     (let (datasets_dict, w) = load_labels False w0 in
      case pickle_loop datasets_dict True w of
        (Inl e, w') \<Rightarrow> (Inl e, w')
      | (Inr each_pickle_file_is_data_instance, w') \<Rightarrow>
          (assertTrue each_pickle_file_is_data_instance, w'))"

subsection \<open>Subset-size check\<close>

text \<open>The guarded recomputation of the \<^verbatim>\<open>ALREADY_EXISTS\<close> column: when not every flag of
  the table is true, each row's flag becomes whether its feature file exists on disk. The
  table is the one \<^verbatim>\<open>load_labels\<close> returned, held in memory.\<close>

definition refresh_already_exists :: "world \<Rightarrow> label list \<Rightarrow> label list" where
  "refresh_already_exists w labels =
     (if \<not> list_all ALREADY_EXISTS labels
      then map (\<lambda>l. l\<lparr>ALREADY_EXISTS := path_exists w (FEATURE_PATH l)\<rparr>) labels
      else labels)"

text \<open>The inner loop over \<^verbatim>\<open>train_val_test_counts.items()\<close>.\<close>

fun subset_counts_loop :: "label list \<Rightarrow> (string \<times> nat) list \<Rightarrow> bool \<Rightarrow> bool" where
  "subset_counts_loop labels [] all_subsets_correct_size = all_subsets_correct_size"
| "subset_counts_loop labels ((subset_tag, labels_in_subset) # rest) all_subsets_correct_size =
     (let features_in_subset =
            length (filter ALREADY_EXISTS (filter (\<lambda>l. SUBSET l = subset_tag) labels))
      in subset_counts_loop labels rest
           (if labels_in_subset \<noteq> features_in_subset then False
            else all_subsets_correct_size))"

fun subset_loop :: "(string \<times> label list) list \<Rightarrow> bool \<Rightarrow> world \<Rightarrow> bool" where
  "subset_loop [] all_subsets_correct_size w = all_subsets_correct_size"
| "subset_loop ((_, labels0) # rest) all_subsets_correct_size w =
     (let labels = refresh_already_exists w labels0;
          train_val_test_counts = value_counts (map SUBSET labels)
      in subset_loop rest
           (subset_counts_loop labels train_val_test_counts all_subsets_correct_size) w)"

definition test_label_feature_subset_amounts :: "world \<Rightarrow> unit result \<times> world" where
  "test_label_feature_subset_amounts w0 =
     (let (datasets_dict, w) = load_labels True w0;
          all_subsets_correct_size = subset_loop datasets_dict True w
      in (assertTrue all_subsets_correct_size, w))"

subsection \<open>Duplicate-feature and emptiness checks\<close>

text \<open>\<^verbatim>\<open>DataFrame.duplicated(subset=cols)\<close>, on the rows' keys: a row is marked when an
  earlier row has its key. With \<^verbatim>\<open>keep=False\<close> every row whose key occurs twice is
  marked.\<close>

fun duplicated_from :: "'a list \<Rightarrow> 'a list \<Rightarrow> bool list" where
  "duplicated_from seen [] = []"
| "duplicated_from seen (k # ks) = (k \<in> set seen) # duplicated_from (k # seen) ks"

definition duplicated :: "'a list \<Rightarrow> bool list" where
  "duplicated keys = duplicated_from [] keys"

definition duplicated_keep_False :: "'a list \<Rightarrow> bool list" where
  "duplicated_keep_False keys = map (\<lambda>k. 1 < count_list keys k) keys"

definition test_features_for_duplicates :: "world \<Rightarrow> unit result \<times> world" where
  "test_features_for_duplicates w =
     (let features_df = all_features w;
          cols_to_check = map (\<lambda>r. (instance_lon r, instance_lat r, source_file r)) features_df;
          duplicates = filter snd (zip features_df (duplicated cols_to_check));
          num_dupes = length duplicates
      in (assertTrue (num_dupes = 0), w))"

definition test_features_for_emptiness :: "world \<Rightarrow> unit result \<times> world" where
  "test_features_for_emptiness w =
     (let features_df = all_features w;
          is_empty = (\<lambda>r. labelled_array r = None);
          num_empty_features = length (filter is_empty features_df)
      in (assertTrue (num_empty_features = 0), w))"

subsection \<open>Temporal-alignment check\<close>

text \<open>\<^verbatim>\<open>Series.str.contains(pat)\<close> for a pattern without regular-expression operators:
  \<open>pat\<close> occurs in the string.\<close>

fun str_contains :: "string \<Rightarrow> string \<Rightarrow> bool" where
  "str_contains pat [] = (pat = [])"
| "str_contains pat (c # s) = (take (length pat) (c # s) = pat \<or> str_contains pat s)"

definition test_all_features_start_with_january_first :: "world \<Rightarrow> unit result \<times> world" where
  "test_all_features_start_with_january_first w =
     (let features_df = all_features w;
          starts_with_jan_first = map (\<lambda>r. str_contains ''_01_01'' (filename r)) features_df
      in (assertTrue (list_all id starts_with_jan_first), w))"

subsection \<open>Label/feature time-step match\<close>

definition and_then :: "'a result \<Rightarrow> ('a \<Rightarrow> 'b result) \<Rightarrow> 'b result" where
  "and_then r f = (case r of Inl e \<Rightarrow> Inl e | Inr x \<Rightarrow> f x)"

text \<open>\<^verbatim>\<open>features = labels[FEATURE_PATH].apply(load_feature)\<close>.\<close>

definition load_features :: "world \<Rightarrow> label list \<Rightarrow> pickle list result" where
  "load_features w labels = series_apply (load_feature w) (map FEATURE_PATH labels)"

text \<open>\<^verbatim>\<open>features_df = pd.DataFrame([feat.__dict__ for feat in features])\<close>.\<close>

definition features_frame :: "pickle list \<Rightarrow> data_instance list result" where
  "features_frame features = series_apply attributes features"

text \<open>\<^verbatim>\<open>f.shape[0]\<close> applied to every entry of a \<^verbatim>\<open>labelled_array\<close> column: a null entry has
  no \<^verbatim>\<open>shape\<close>.\<close>

definition month_amount_of :: "ndarray option \<Rightarrow> nat result" where
  "month_amount_of a = (case a of None \<Rightarrow> Inl AttributeError | Some f \<Rightarrow> shape_first f)"

text \<open>\<^verbatim>\<open>get_label_timesteps\<close> of \<^verbatim>\<open>openmapflow.labeled_dataset\<close> is a parameter: the number of
  monthly time steps of each row of a label table. Comparing two series of different
  lengths raises \<^verbatim>\<open>ValueError\<close>.\<close>

fun ranges_loop ::
  "(label list \<Rightarrow> nat list) \<Rightarrow> (string \<times> label list) list \<Rightarrow> bool \<Rightarrow> world
    \<Rightarrow> bool result \<times> world" where
  "ranges_loop get_label_timesteps [] all_label_and_feature_ranges_match w =
     (Inr all_label_and_feature_ranges_match, w)"
| "ranges_loop get_label_timesteps ((name, labels0) # rest) all_label_and_feature_ranges_match w =
     (let labels = filter ALREADY_EXISTS labels0 in
      if length labels = 0
      then ranges_loop get_label_timesteps rest all_label_and_feature_ranges_match w
      else
        (case and_then (and_then (load_features w labels) features_frame)
                (\<lambda>features_df. series_apply month_amount_of (map labelled_array features_df)) of
           Inl e \<Rightarrow> (Inl e, w)
         | Inr feature_month_amount \<Rightarrow>
             (let label_month_amount = get_label_timesteps labels;
                  label_ranges = value_counts label_month_amount;
                  feature_ranges = value_counts feature_month_amount
              in if length feature_month_amount \<noteq> length label_month_amount
                 then (Inl ValueError, w)
                 else
                   (let ok = (feature_month_amount = label_month_amount)
                    in ranges_loop get_label_timesteps rest
                         (all_label_and_feature_ranges_match \<and> ok)
                         (print (RangeStatus ok name label_ranges feature_ranges) w)))))"

definition test_label_and_feature_ranges_match ::
  "(label list \<Rightarrow> nat list) \<Rightarrow> world \<Rightarrow> unit result \<times> world" where
  "test_label_and_feature_ranges_match get_label_timesteps w0 =
     (let (datasets_dict, w) = load_labels False w0 in
      case ranges_loop get_label_timesteps datasets_dict True w of
        (Inl e, w') \<Rightarrow> (Inl e, w')
      | (Inr all_label_and_feature_ranges_match, w') \<Rightarrow>
          (assertTrue all_label_and_feature_ranges_match, w'))"

subsection \<open>Date-order check\<close>

text \<open>The order of timestamps, on their dates.\<close>

definition date_less :: "date \<Rightarrow> date \<Rightarrow> bool" where
  "date_less a b =
     (year a < year b \<or>
      (year a = year b \<and> (month a < month b \<or> (month a = month b \<and> day a < day b))))"

fun dates_loop :: "(string \<times> label list) list \<Rightarrow> bool \<Rightarrow> world \<Rightarrow> bool \<times> world" where
  "dates_loop [] all_labels_have_consistent_dates w = (all_labels_have_consistent_dates, w)"
| "dates_loop ((name, labels) # rest) all_labels_have_consistent_dates w =
     (let consistent_dates = map (\<lambda>l. date_less (START l) (END l)) labels;
          ok = list_all id consistent_dates
      in dates_loop rest (all_labels_have_consistent_dates \<and> ok)
           (print (DateStatus ok name (length (filter Not consistent_dates))) w))"

definition test_labels_have_start_before_end_date :: "world \<Rightarrow> unit result \<times> world" where
  "test_labels_have_start_before_end_date w0 =
     (let (datasets_dict, w) = load_labels False w0;
          (all_labels_have_consistent_dates, w') = dates_loop datasets_dict True w
      in (assertTrue all_labels_have_consistent_dates, w'))"

subsection \<open>Historical-completeness check\<close>

text \<open>
  \<^verbatim>\<open>d + relativedelta(months=k)\<close> of dateutil: \<open>k\<close> is normalised to whole years and at
  most eleven months of the same sign, the month is carried into the year, and the day
  is capped by the length of the target month. The range limits of \<^verbatim>\<open>datetime.date\<close> and
  \<^verbatim>\<open>pd.Timestamp\<close> are outside the model: \<open>today\<close> is a date the system clock gives.
\<close>

definition isleap :: "int \<Rightarrow> bool" where
  "isleap y = (y mod 4 = 0 \<and> (y mod 100 \<noteq> 0 \<or> y mod 400 = 0))"

definition monthrange :: "int \<Rightarrow> nat \<Rightarrow> nat" where
  "monthrange y m =
     (if m = 2 then (if isleap y then 29 else 28)
      else if m = 4 \<or> m = 6 \<or> m = 9 \<or> m = 11 then 30 else 31)"

definition relativedelta_months :: "date \<Rightarrow> int \<Rightarrow> date" where
  "relativedelta_months d k =
     (let s = (if k < 0 then - 1 else 1);
          years = s * ((k * s) div 12);
          months = s * ((k * s) mod 12);
          y0 = year d + years;
          m0 = int (month d) + months;
          y = (if 12 < m0 then y0 + 1 else if m0 < 1 then y0 - 1 else y0);
          m = (if 12 < m0 then m0 - 12 else if m0 < 1 then m0 + 12 else m0)
      in \<lparr>year = y, month = nat m, day = min (monthrange y (nat m)) (day d)\<rparr>)"

definition current_cutoff_date :: "date \<Rightarrow> date" where
  "current_cutoff_date today = relativedelta_months (today\<lparr>day := 1\<rparr>) (- 3)"

definition two_years_before_cutoff :: "date \<Rightarrow> date" where
  "two_years_before_cutoff today = relativedelta_months (current_cutoff_date today) (- 24)"

fun older_loop ::
  "date \<Rightarrow> (string \<times> label list) list \<Rightarrow> bool \<Rightarrow> world \<Rightarrow> bool result \<times> world" where
  "older_loop today [] all_older_features_have_24_months w =
     (Inr all_older_features_have_24_months, w)"
| "older_loop today ((name, labels0) # rest) all_older_features_have_24_months w =
     (let cutoff = (\<lambda>l. date_less (START l) (two_years_before_cutoff today));
          labels = filter (\<lambda>l. ALREADY_EXISTS l \<and> cutoff l) labels0
      in if length labels = 0
         then older_loop today rest all_older_features_have_24_months w
         else
           (case and_then (and_then (load_features w labels) features_frame)
                   (\<lambda>features_df. series_apply shape_first (non_null_arrays features_df)) of
              Inl e \<Rightarrow> (Inl e, w)
            | Inr months \<Rightarrow>
                (let month_amount = unique months;
                     ok = (month_amount = [24])
                 in older_loop today rest (all_older_features_have_24_months \<and> ok)
                      (print (MonthStatus ok name month_amount) w))))"

definition test_all_older_features_have_24_months ::
  "date \<Rightarrow> world \<Rightarrow> unit result \<times> world" where
  "test_all_older_features_have_24_months today w0 =
     (let (datasets_dict, w) = load_labels False w0 in
      case older_loop today datasets_dict True w of
        (Inl e, w') \<Rightarrow> (Inl e, w')
      | (Inr all_older_features_have_24_months, w') \<Rightarrow>
          (assertTrue all_older_features_have_24_months, w'))"

subsection \<open>Coordinate-closeness check\<close>

text \<open>
  The loop computes \<open>num_mismatched\<close> for each dataset and prints it; the counter
  \<open>total_num_mismatched\<close> that the final assertion reads is initialised to \<open>0\<close> and
  never assigned again.
\<close>

text \<open>\<^verbatim>\<open>lambda f: f.instance_lon\<close> and \<^verbatim>\<open>lambda f: f.instance_lat\<close>.\<close>

definition attribute :: "(data_instance \<Rightarrow> 'a) \<Rightarrow> pickle \<Rightarrow> 'a result" where
  "attribute field f = and_then (attributes f) (\<lambda>d. Inr (field d))"

fun closeness_loop ::
  "(string \<times> label list) list \<Rightarrow> world \<Rightarrow> unit result \<times> world" where
  "closeness_loop [] w = (Inr (), w)"
| "closeness_loop ((name, labels0) # rest) w =
     (let labels = filter ALREADY_EXISTS labels0 in
      if length labels = 0 then closeness_loop rest (print (NoFeatures name) w)
      else
        (case and_then (load_features w labels)
                (\<lambda>features.
                   and_then (series_apply (attribute instance_lon) features)
                     (\<lambda>instance_lons.
                        and_then (series_apply (attribute instance_lat) features)
                          (\<lambda>instance_lats. Inr (zip labels (zip instance_lons instance_lats))))) of
           Inl e \<Rightarrow> (Inl e, w)
         | Inr rows \<Rightarrow>
             (let label_tif_mismatch =
                    filter (\<lambda>(l, ilon, ilat).
                        LON l - ilon > 1 / 10000 \<or> LAT l - ilat > 1 / 10000) rows;
                  num_mismatched = length label_tif_mismatch
              in closeness_loop rest
                   (print (MismatchStatus (\<not> 0 < num_mismatched) name num_mismatched) w))))"

definition test_features_for_closeness :: "world \<Rightarrow> unit result \<times> world" where
  "test_features_for_closeness w0 =
     (let total_num_mismatched = (0 :: nat);
          (datasets_dict, w) = load_labels False w0
      in case closeness_loop datasets_dict w of
           (Inl e, w') \<Rightarrow> (Inl e, w')
         | (Inr _, w') \<Rightarrow> (assertTrue (total_num_mismatched = 0), w'))"

subsection \<open>Coordinate-duplication report\<close>

text \<open>\<^verbatim>\<open>pd.concat(objs)\<close>: the tables one after the other; an empty list of tables raises
  \<^verbatim>\<open>ValueError\<close> ("No objects to concatenate").\<close>

definition pd_concat :: "'a list list \<Rightarrow> 'a list result" where
  "pd_concat objs = (if objs = [] then Inl ValueError else Inr (concat objs))"

text \<open>\<^verbatim>\<open>sep.join(strings)\<close>.\<close>

fun join :: "string \<Rightarrow> string list \<Rightarrow> string" where
  "join sep [] = []"
| "join sep [x] = x"
| "join sep (x # y # ys) = x @ sep @ join sep (y # ys)"

text \<open>\<^verbatim>\<open>astype(str)\<close> on a column of years: the decimal digits of the number.\<close>

function str_nat :: "nat \<Rightarrow> string" where
  "str_nat n =
     (if n < 10 then [''0123456789'' ! n]
      else str_nat (n div 10) @ [''0123456789'' ! (n mod 10)])"
  by pat_completeness auto
termination
  by (relation "measure id") auto

definition str_int :: "int \<Rightarrow> string" where
  "str_int i = (if i < 0 then CHR ''-'' # str_nat (nat (- i)) else str_nat (nat i))"

text \<open>The loop that tags every table with its dataset's \<^verbatim>\<open>name\<close> column (a row of a
  tagged table is the pair of the name and the label) and collects \<^verbatim>\<open>all_dfs\<close>.\<close>

fun name_loop ::
  "(string \<times> label list) list \<Rightarrow> (string \<times> label) list list \<Rightarrow> (string \<times> label) list list" where
  "name_loop [] all_dfs = all_dfs"
| "name_loop ((name, labels) # rest) all_dfs =
     name_loop rest (all_dfs @ [map (\<lambda>l. (name, l)) labels])"

text \<open>\<^verbatim>\<open>groupby([LON, LAT], as_index=False, sort=False).agg(...)\<close>: one row per coordinate,
  in order of first appearance, with the three aggregated columns.\<close>

definition spill_over_groups :: "(string \<times> label) list \<Rightarrow> (string \<times> string \<times> string) list" where
  "spill_over_groups duplicates =
     map (\<lambda>k.
            (let g = filter (\<lambda>(name, l). (LON l, LAT l) = k) duplicates
             in (join '','' (unique (map fst g)),
                 join '','' (unique (map (\<lambda>(name, l). SUBSET l) g)),
                 join '','' (map (\<lambda>(name, l). str_int (year (START l))) g))))
         (unique (map (\<lambda>(name, l). (LON l, LAT l)) duplicates))"

definition test_label_coordinate_duplication :: "world \<Rightarrow> unit result \<times> world" where
  "test_label_coordinate_duplication w0 =
     (let (datasets_dict, w) = load_labels False w0;
          all_dfs = name_loop datasets_dict []
      in case pd_concat all_dfs of
           Inl e \<Rightarrow> (Inl e, w)
         | Inr big_df \<Rightarrow>
             (let marks = duplicated_keep_False (map (\<lambda>(name, l). (LON l, LAT l)) big_df);
                  duplicates = map fst (filter snd (zip big_df marks));
                  df = spill_over_groups duplicates
              in (Inr (),
                  print (SpillOver (value_counts df))
                    (print Rule (print Title (print Rule w))))))"

section \<open>Project generator\<close>

text \<open>
  The generator's module \<^verbatim>\<open>openmapflow/generate.py\<close> is not among the sources; only its
  tests in \<^verbatim>\<open>tests/test_generate.py\<close> are. Its two operations below are modelled from the
  specification.
\<close>

subsection \<open>Git-root detection\<close>

text \<open>A directory is the list of its components below the filesystem root (the root is
  \<open>[]\<close>, the parent of the root is the root); a filesystem is the set of the paths that
  exist.\<close>

type_synonym dir = "string list"

text \<open>Modelled from the spec: \<^verbatim>\<open>get_git_root\<close> of \<^verbatim>\<open>openmapflow/generate.py\<close>, which
  "walks upward from a given path looking for a \<^verbatim>\<open>.git\<close> marker directory; fails with a
  not-found error if none exists up to the filesystem root". The test expects the error to
  be a \<^verbatim>\<open>FileExistsError\<close>.\<close>

function get_git_root :: "dir set \<Rightarrow> dir \<Rightarrow> dir result" where
  "get_git_root fs d =
     (if d @ [''.git''] \<in> fs then Inr d
      else if d = [] then Inl FileExistsError
      else get_git_root fs (butlast d))"
  by pat_completeness auto
termination
  by (relation "measure (\<lambda>(fs, d). length d)") auto

subsection \<open>Data-versioning setup\<close>

record data_paths =
  RAW_LABELS :: string
  PROCESSED_LABELS :: string
  MODELS :: string
  FEATURES :: string
  COMPRESSED_FEATURES :: string

text \<open>\<^verbatim>\<open>os.system(cmd)\<close>, on the list of the shell commands issued so far.\<close>

definition os_system :: "string \<Rightarrow> string list \<Rightarrow> string list" where
  "os_system cmd issued = issued @ [cmd]"

text \<open>Modelled from the spec: \<^verbatim>\<open>setup_dvc\<close> of \<^verbatim>\<open>openmapflow/generate.py\<close>, which "collects a
  remote identifier, and issues a fixed sequence of external versioning commands:
  initialize versioning, register each of the four data directories, configure the remote
  with the supplied identifier, and push". \<open>gdrive_id\<close> is the identifier the operator
  enters for the Google-Drive remote.\<close>

definition setup_dvc :: "data_paths \<Rightarrow> string \<Rightarrow> string list \<Rightarrow> string list" where
  "setup_dvc dp gdrive_id issued =
     (let issued1 = os_system ''dvc init'' issued;
          dvc_files = [RAW_LABELS dp, PROCESSED_LABELS dp, COMPRESSED_FEATURES dp, MODELS dp];
          issued2 = os_system (''dvc add '' @ join '' '' dvc_files) issued1;
          issued3 = os_system (''dvc remote add -d gdrive gdrive://'' @ gdrive_id) issued2
      in os_system ''dvc push'' issued3)"

section \<open>What a check may not change\<close>

text \<open>The part of the world the validator only reads: the datasets with their label sources,
  the feature files, and the feature table built from them.\<close>

definition persisted :: "world \<Rightarrow> labeled_dataset list \<times> (path \<times> pickle) list \<times> feature_row list" where
  "persisted w = (datasets w, feature_files w, all_features w)"

section \<open>The checks as the specification words them\<close>

text \<open>
  The specification describes two of the checks in words that can be read as a decision
  procedure of their own. The definitions below follow those words, not the source; they
  are compared with the source's checks in the properties section.
\<close>

subsection \<open>Subset-size check, as specified\<close>

text \<open>
  ``If the already-exists flag is stale (disagrees with actual file existence on disk), it
  is recomputed by checking file existence on disk before comparing'': every flag that
  disagrees with the disk is replaced by what the disk says.
\<close>

definition spec_recompute_stale :: "world \<Rightarrow> label list \<Rightarrow> label list" where
  "spec_recompute_stale w labels =
     map (\<lambda>l. if ALREADY_EXISTS l \<noteq> path_exists w (FEATURE_PATH l)
              then l\<lparr>ALREADY_EXISTS := path_exists w (FEATURE_PATH l)\<rparr> else l) labels"

text \<open>
  ``For each subset tag the check records failure exactly when the count of labels assigned
  to that subset differs from the count of those labels marked already-exists.''
\<close>

definition spec_subset_amounts_differ :: "label list \<Rightarrow> bool" where
  "spec_subset_amounts_differ labels =
     list_ex (\<lambda>s. length (filter (\<lambda>l. SUBSET l = s) labels) \<noteq>
                  length (filter (\<lambda>l. SUBSET l = s \<and> ALREADY_EXISTS l) labels))
       (map SUBSET labels)"

definition spec_subset_check_fails :: "world \<Rightarrow> bool" where
  "spec_subset_check_fails w =
     list_ex (\<lambda>(name, labels). spec_subset_amounts_differ (spec_recompute_stale w labels))
       (fst (load_labels True w))"

subsection \<open>Historical-completeness check, as specified\<close>

text \<open>
  ``Fails if and only if some label whose start date is more than 24 months before the
  rolling cutoff (today minus 3 months) has an associated feature array whose time-step
  count is not exactly 24.'' The cutoff is today minus three months, the day of the month
  kept; a label with no feature array has no array of the wrong length.
\<close>

definition spec_older_check_fails :: "date \<Rightarrow> world \<Rightarrow> bool" where
  "spec_older_check_fails today w =
     list_ex (\<lambda>(name, labels).
        list_ex (\<lambda>l.
           date_less (START l) (relativedelta_months (relativedelta_months today (- 3)) (- 24)) \<and>
           (case load_feature w (FEATURE_PATH l) of
              Inr (DataInstance d) \<Rightarrow>
                (case labelled_array d of Some f \<Rightarrow> shape_first f \<noteq> Inr 24 | None \<Rightarrow> False)
            | _ \<Rightarrow> False)) labels)
       (fst (load_labels False w))"


section \<open>Properties\<close>

lemma series_apply_Inr: "series_apply f xs = Inr ys \<longleftrightarrow> map f xs = map Inr ys"
proof (induction xs arbitrary: ys)
  case Nil
  then show ?case by auto
next
  case (Cons x xs)
  show ?case
  proof (cases "f x")
    case (Inl e)
    then show ?thesis by (cases ys) auto
  next
    case (Inr y)
    show ?thesis
    proof (cases ys)
      case Nil
      then show ?thesis using Inr by (simp split: sum.splits)
    next
      case (Cons z zs)
      then show ?thesis using Inr Cons.IH[of zs] by (auto split: sum.splits)
    qed
  qed
qed

lemma unique_singleton: "unique xs = [a] \<longleftrightarrow> xs \<noteq> [] \<and> set xs = {a}"
proof -
  have "remdups zs = [a] \<longleftrightarrow> zs \<noteq> [] \<and> set zs = {a}" for zs :: "'a list"
  proof
    assume "remdups zs = [a]"
    then have "set (remdups zs) = {a}" by simp
    then show "zs \<noteq> [] \<and> set zs = {a}" by auto
  next
    assume h: "zs \<noteq> [] \<and> set zs = {a}"
    have "distinct (remdups zs)" by simp
    moreover have "set (remdups zs) = {a}" using h by simp
    ultimately have "length (remdups zs) = 1"
      by (metis distinct_card card.empty card_insert_disjoint finite.emptyI empty_iff One_nat_def)
    then obtain b where "remdups zs = [b]"
      by (cases "remdups zs") auto
    with \<open>set (remdups zs) = {a}\<close> show "remdups zs = [a]" by auto
  qed
  from this[of "rev xs"] show ?thesis
    unfolding unique_def by (metis rev_is_Nil_conv rev_singleton_conv set_rev)
qed

lemma set_map_singleton: "set (map g xs) = {a} \<longleftrightarrow> xs \<noteq> [] \<and> (\<forall>x\<in>set xs. g x = a)"
proof (cases xs)
  case Nil
  then show ?thesis by simp
next
  case (Cons y ys)
  then show ?thesis by fastforce
qed

lemma shape_last_map: "map shape_last arrs = map Inr bands \<longleftrightarrow>
   (list_all (\<lambda>f. f \<noteq> []) arrs \<and> bands = map last arrs)"
proof (induction arrs arbitrary: bands)
  case Nil then show ?case by auto
next
  case (Cons a arrs)
  then show ?case by (cases bands; cases a) (auto simp: shape_last_def)
qed

text \<open>
  Claim C2, as amended. The band-count check passes if and only if the feature table has at
  least one row with a non-null \<^verbatim>\<open>labelled_array\<close> and every such array has last dimension
  exactly 18: the assertion compares the list of distinct last dimensions with \<open>[18]\<close>, so
  a table with no non-null array fails it.
\<close>

theorem bands_check_passes_iff:
  "fst (test_all_features_have_18_bands w) = Inr () \<longleftrightarrow>
     non_null_arrays (all_features w) \<noteq> [] \<and>
     list_all (\<lambda>f. shape_last f = Inr 18) (non_null_arrays (all_features w))"
proof -
  let ?arrs = "non_null_arrays (all_features w)"
  show ?thesis
  proof (cases "series_apply shape_last ?arrs")
    case (Inl e)
    then have "\<not> list_all (\<lambda>f. f \<noteq> []) ?arrs"
      using series_apply_Inr[of shape_last ?arrs "map last ?arrs"] shape_last_map[of ?arrs "map last ?arrs"]
      by auto
    then have "[] \<in> set ?arrs" by (auto simp: list_all_iff)
    moreover have "shape_last [] \<noteq> Inr 18" by (simp add: shape_last_def)
    ultimately have "\<not> list_all (\<lambda>f. shape_last f = Inr 18) ?arrs"
      unfolding list_all_iff by blast
    with Inl show ?thesis
      by (simp add: test_all_features_have_18_bands_def Let_def)
  next
    case (Inr bands)
    then have b: "list_all (\<lambda>f. f \<noteq> []) ?arrs" "bands = map last ?arrs"
      using series_apply_Inr[of shape_last ?arrs bands] shape_last_map[of ?arrs bands] by auto
    have sl: "shape_last f = Inr 18 \<longleftrightarrow> last f = 18" if "f \<in> set ?arrs" for f
    proof -
      from that b(1) have "f \<noteq> []" by (auto simp: list_all_iff)
      then obtain x xs where "f = x # xs" by (auto simp: neq_Nil_conv)
      then show ?thesis by (simp add: shape_last_def)
    qed
    have "set bands = {18} \<longleftrightarrow> ?arrs \<noteq> [] \<and> (\<forall>f\<in>set ?arrs. last f = 18)"
      unfolding b(2) by (rule set_map_singleton)
    also have "\<dots> \<longleftrightarrow> ?arrs \<noteq> [] \<and> (\<forall>f\<in>set ?arrs. shape_last f = Inr 18)"
      using sl by auto
    finally have "unique bands = [18] \<longleftrightarrow> ?arrs \<noteq> [] \<and> list_all (\<lambda>f. shape_last f = Inr 18) ?arrs"
      unfolding unique_singleton list_all_iff using b(2) by auto
    with Inr show ?thesis
      by (simp add: test_all_features_have_18_bands_def Let_def assertEqual_def)
  qed
qed

text \<open>
  Claim C2 as stated fails on a feature table whose only row has a null array: every
  non-null array (there is none) has 18 bands, and the check fails.
\<close>

theorem bands_check_fails_without_arrays:
  "list_all (\<lambda>f. shape_last f = Inr 18)
     (non_null_arrays (all_features
        \<lparr>datasets = [], feature_files = [],
         all_features = [\<lparr>instance_lon = 0, instance_lat = 0, labelled_array = None,
                          source_file = ''a.tif'', filename = ''features/a_01_01.pkl''\<rparr>],
         stdout = []\<rparr>))
   \<and> fst (test_all_features_have_18_bands
        \<lparr>datasets = [], feature_files = [],
         all_features = [\<lparr>instance_lon = 0, instance_lat = 0, labelled_array = None,
                          source_file = ''a.tif'', filename = ''features/a_01_01.pkl''\<rparr>],
         stdout = []\<rparr>) = Inl AssertionError"
  by (simp add: test_all_features_have_18_bands_def non_null_arrays_def List.map_filter_def
      unique_def assertEqual_def)

theorem bands_check_passes_iff_witness:
  "fst (test_all_features_have_18_bands
        \<lparr>datasets = [], feature_files = [],
         all_features = [\<lparr>instance_lon = 0, instance_lat = 0, labelled_array = Some [12, 18],
                          source_file = ''a.tif'', filename = ''features/a_01_01.pkl''\<rparr>],
         stdout = []\<rparr>) = Inr ()"
  using bands_check_passes_iff
    [of "\<lparr>datasets = [], feature_files = [],
         all_features = [\<lparr>instance_lon = 0, instance_lat = 0, labelled_array = Some [12, 18],
                          source_file = ''a.tif'', filename = ''features/a_01_01.pkl''\<rparr>],
         stdout = []\<rparr>"]
  by (simp add: non_null_arrays_def List.map_filter_def shape_last_def)

text \<open>
  Claim C1. A label one degree of longitude away from the coordinates its feature file
  records is far beyond the tolerance of 0.0001, and the coordinate-closeness check
  passes: its assertion reads \<open>total_num_mismatched\<close>, which the loop never updates.
\<close>

theorem closeness_passes_on_mismatch:
  "1 / 10000 < \<bar>(1 :: real) - 0\<bar> \<and>
   fst (test_features_for_closeness
     \<lparr>datasets =
        [\<lparr>dataset = ''crops'',
          labels_file = Some
            [\<lparr>LON = 1, LAT = 0,
              START = \<lparr>year = 2020, month = 1, day = 1\<rparr>,
              END = \<lparr>year = 2021, month = 1, day = 1\<rparr>,
              SUBSET = ''training'', FEATURE_FILENAME = ''a_01_01'',
              FEATURE_PATH = ''features/a_01_01.pkl'', ALREADY_EXISTS = True\<rparr>],
          summary = ''summary''\<rparr>],
      feature_files =
        [(''features/a_01_01.pkl'',
          DataInstance \<lparr>instance_lon = 0, instance_lat = 0, labelled_array = Some [24, 18],
            source_file = ''a.tif''\<rparr>)],
      all_features = [], stdout = []\<rparr>) = Inr ()"
  by (simp add: test_features_for_closeness_def load_labels_def print_def load_features_def
      load_feature_def attribute_def attributes_def and_then_def assertTrue_def)

text \<open>
  Claim C5. When no dataset loads (here the only dataset's label file is missing, which
  \<^verbatim>\<open>load_labels\<close> skips), the coordinate-duplication report does not print its report:
  \<^verbatim>\<open>pd.concat\<close> of the empty list raises \<^verbatim>\<open>ValueError\<close>.
\<close>

theorem duplication_report_raises_without_datasets:
  "fst (test_label_coordinate_duplication
     \<lparr>datasets = [\<lparr>dataset = ''crops'', labels_file = None, summary = ''summary''\<rparr>],
      feature_files = [], all_features = [], stdout = []\<rparr>) = Inl ValueError"
  by (simp add: test_label_coordinate_duplication_def load_labels_def print_def pd_concat_def)

declare get_git_root.simps [simp del]

lemma get_git_root_not_found:
  "(\<forall>k\<le>length d. take k d @ [''.git''] \<notin> fs) \<Longrightarrow> get_git_root fs d = Inl FileExistsError"
proof (induction fs d rule: get_git_root.induct)
  case (1 fs d)
  from "1.prems" have here: "d @ [''.git''] \<notin> fs" by (metis order_refl take_all)
  show ?case
  proof (cases "d = []")
    case True
    with here show ?thesis by (simp add: get_git_root.simps)
  next
    case False
    have "\<forall>k\<le>length (butlast d). take k (butlast d) @ [''.git''] \<notin> fs"
    proof (intro allI impI)
      fix k assume k: "k \<le> length (butlast d)"
      then have "take k (butlast d) = take k d"
        by (simp add: take_butlast butlast_conv_take)
      moreover have "k \<le> length d" using k by simp
      ultimately show "take k (butlast d) @ [''.git''] \<notin> fs" using "1.prems" by simp
    qed
    then have "get_git_root fs (butlast d) = Inl FileExistsError"
      using "1.IH" here False by simp
    with here False show ?thesis by (subst get_git_root.simps) simp
  qed
qed

lemma get_git_root_found:
  "marked @ [''.git''] \<in> fs \<Longrightarrow>
   (\<forall>k. 0 < k \<and> k \<le> length sub \<longrightarrow> (marked @ take k sub) @ [''.git''] \<notin> fs) \<Longrightarrow>
   get_git_root fs (marked @ sub) = Inr marked"
proof (induction sub rule: rev_induct)
  case Nil
  then show ?case by (simp add: get_git_root.simps)
next
  case (snoc y ys)
  have here: "(marked @ ys @ [y]) @ [''.git''] \<notin> fs"
    using snoc.prems(2)[rule_format, of "length (ys @ [y])"] by simp
  have "\<forall>k. 0 < k \<and> k \<le> length ys \<longrightarrow> (marked @ take k ys) @ [''.git''] \<notin> fs"
  proof (intro allI impI)
    fix k assume k: "0 < k \<and> k \<le> length ys"
    then show "(marked @ take k ys) @ [''.git''] \<notin> fs"
      using snoc.prems(2)[rule_format, of k] by simp
  qed
  then have ih: "get_git_root fs (marked @ ys) = Inr marked"
    using snoc.IH snoc.prems(1) by blast
  have "butlast (marked @ ys @ [y]) = marked @ ys"
    by (simp add: butlast_append)
  with here ih show ?case
    by (subst get_git_root.simps) simp
qed

text \<open>
  Claim C7. \<^verbatim>\<open>setup_dvc\<close> issues exactly four shell commands, in this order: \<^verbatim>\<open>dvc init\<close>;
  \<^verbatim>\<open>dvc add\<close> with the raw labels, processed labels, compressed features and models paths
  joined by spaces; \<^verbatim>\<open>dvc remote add -d gdrive gdrive://<id>\<close> with the identifier the
  operator supplied; \<^verbatim>\<open>dvc push\<close>.
\<close>

theorem setup_dvc_commands:
  "setup_dvc dp gdrive_id [] =
     [''dvc init'',
      ''dvc add '' @ RAW_LABELS dp @ '' '' @ PROCESSED_LABELS dp @ '' '' @
         COMPRESSED_FEATURES dp @ '' '' @ MODELS dp,
      ''dvc remote add -d gdrive gdrive://'' @ gdrive_id,
      ''dvc push'']"
  by (simp add: setup_dvc_def os_system_def)

text \<open>
  Claim C3. Git-root lookup from a directory none of whose ancestors (itself and the root
  included) holds a \<^verbatim>\<open>.git\<close> entry raises the not-found error; from a directory below a
  marked directory, with no marker on the way down, it returns the marked directory.
\<close>

theorem git_root_lookup:
  "((\<forall>k\<le>length d. take k d @ [''.git''] \<notin> fs) \<longrightarrow> get_git_root fs d = Inl FileExistsError) \<and>
   (marked @ [''.git''] \<in> fs \<and>
    (\<forall>k. 0 < k \<and> k \<le> length sub \<longrightarrow> (marked @ take k sub) @ [''.git''] \<notin> fs)
      \<longrightarrow> get_git_root fs (marked @ sub) = Inr marked)"
  using get_git_root_not_found[of d fs] get_git_root_found[of marked fs sub]
  by blast

theorem git_root_lookup_witness:
  "get_git_root {[''tmp'', ''x'', ''.git'']} [''tmp'', ''y''] = Inl FileExistsError \<and>
   get_git_root {[''tmp'', ''x'', ''.git'']} ([''tmp'', ''x''] @ [''subdir'']) = Inr [''tmp'', ''x'']"
proof -
  have a: "\<forall>k\<le>length [''tmp'', ''y''].
             take k [''tmp'', ''y''] @ [''.git''] \<notin> {[''tmp'', ''x'', ''.git'']}"
  proof (intro allI impI)
    fix k :: nat assume "k \<le> length [''tmp'', ''y'']"
    then have "k = 0 \<or> k = 1 \<or> k = 2" by auto
    then show "take k [''tmp'', ''y''] @ [''.git''] \<notin> {[''tmp'', ''x'', ''.git'']}"
      by auto
  qed
  have b: "\<forall>k. 0 < k \<and> k \<le> length [''subdir''] \<longrightarrow>
             ([''tmp'', ''x''] @ take k [''subdir'']) @ [''.git''] \<notin> {[''tmp'', ''x'', ''.git'']}"
    by auto
  have c: "[''tmp'', ''x''] @ [''.git''] \<in> {[''tmp'', ''x'', ''.git'']}"
    by simp
  show ?thesis
    using git_root_lookup[of "[''tmp'', ''y'']" "{[''tmp'', ''x'', ''.git'']}" "[''tmp'', ''x'']"
        "[''subdir'']"] a b c
    by blast
qed

theorem setup_dvc_commands_witness:
  "setup_dvc \<lparr>RAW_LABELS = ''data/raw_labels'', PROCESSED_LABELS = ''data/processed_labels'',
              MODELS = ''data/models'', FEATURES = ''data/features'',
              COMPRESSED_FEATURES = ''data/compressed_features.tar.gz''\<rparr> ''fake-gdrive-id'' [] =
     [''dvc init'',
      ''dvc add data/raw_labels data/processed_labels data/compressed_features.tar.gz data/models'',
      ''dvc remote add -d gdrive gdrive://fake-gdrive-id'',
      ''dvc push'']"
  using setup_dvc_commands
    [of "\<lparr>RAW_LABELS = ''data/raw_labels'', PROCESSED_LABELS = ''data/processed_labels'',
              MODELS = ''data/models'', FEATURES = ''data/features'',
              COMPRESSED_FEATURES = ''data/compressed_features.tar.gz''\<rparr>" "''fake-gdrive-id''"]
  by simp

lemma persisted_print [simp]: "persisted (print l w) = persisted w"
  by (simp add: persisted_def print_def)

lemma load_feature_print [simp]: "load_feature (print l w) = load_feature w"
  by (rule ext) (simp add: load_feature_def print_def)

lemma load_features_print [simp]: "load_features (print l w) = load_features w"
  by (rule ext) (simp add: load_features_def)

lemma path_exists_print [simp]: "path_exists (print l w) = path_exists w"
  by (rule ext) (simp add: path_exists_def print_def)

lemma load_labels_loop_persisted:
  "persisted (snd (load_labels_loop is_print ds acc w)) = persisted w"
  by (induction ds arbitrary: acc w) (auto split: option.splits)

lemma load_labels_persisted: "persisted (snd (load_labels is_print w)) = persisted w"
  by (simp add: load_labels_def load_labels_loop_persisted)

lemma pickle_loop_persisted: "persisted (snd (pickle_loop dict flag w)) = persisted w"
  by (induction dict flag w rule: pickle_loop.induct) (auto simp: Let_def split: sum.splits)

lemma ranges_loop_persisted: "persisted (snd (ranges_loop ts dict flag w)) = persisted w"
  by (induction ts dict flag w rule: ranges_loop.induct) (auto simp: Let_def split: sum.splits)

lemma dates_loop_persisted: "persisted (snd (dates_loop dict flag w)) = persisted w"
  by (induction dict flag w rule: dates_loop.induct) (auto simp: Let_def split: prod.splits)

lemma older_loop_persisted: "persisted (snd (older_loop today dict flag w)) = persisted w"
  by (induction today dict flag w rule: older_loop.induct) (auto simp: Let_def split: sum.splits)

lemma closeness_loop_persisted: "persisted (snd (closeness_loop dict w)) = persisted w"
  by (induction dict w rule: closeness_loop.induct) (auto simp: Let_def split: sum.splits)

text \<open>
  Claim C9. Every check of the validator leaves the persisted label sources and the
  feature files on disk as it found them; what a check changes is the standard output
  (and the tables it holds in memory, which are values of the run, not of the world).
\<close>

theorem checks_leave_disk_unchanged:
  "persisted (snd (test_features_with_no_labels w)) = persisted w \<and>
   persisted (snd (test_each_pickle_file_is_data_instance w)) = persisted w \<and>
   persisted (snd (test_label_feature_subset_amounts w)) = persisted w \<and>
   persisted (snd (test_features_for_duplicates w)) = persisted w \<and>
   persisted (snd (test_features_for_emptiness w)) = persisted w \<and>
   persisted (snd (test_all_features_have_18_bands w)) = persisted w \<and>
   persisted (snd (test_all_features_start_with_january_first w)) = persisted w \<and>
   persisted (snd (test_label_and_feature_ranges_match get_label_timesteps w)) = persisted w \<and>
   persisted (snd (test_labels_have_start_before_end_date w)) = persisted w \<and>
   persisted (snd (test_all_older_features_have_24_months today w)) = persisted w \<and>
   persisted (snd (test_features_for_closeness w)) = persisted w \<and>
   persisted (snd (test_label_coordinate_duplication w)) = persisted w"
proof (intro conjI)
  show "persisted (snd (test_features_with_no_labels w)) = persisted w"
    using load_labels_persisted[of False w]
    by (simp add: test_features_with_no_labels_def Let_def case_prod_beta)
  show "persisted (snd (test_each_pickle_file_is_data_instance w)) = persisted w"
    using load_labels_persisted[of False w]
      pickle_loop_persisted[of "fst (load_labels False w)" True "snd (load_labels False w)"]
    by (auto simp: test_each_pickle_file_is_data_instance_def Let_def case_prod_beta split: sum.splits)
  show "persisted (snd (test_label_feature_subset_amounts w)) = persisted w"
    using load_labels_persisted[of True w]
    by (simp add: test_label_feature_subset_amounts_def Let_def case_prod_beta)
  show "persisted (snd (test_features_for_duplicates w)) = persisted w"
    by (simp add: test_features_for_duplicates_def Let_def)
  show "persisted (snd (test_features_for_emptiness w)) = persisted w"
    by (simp add: test_features_for_emptiness_def Let_def)
  show "persisted (snd (test_all_features_have_18_bands w)) = persisted w"
    by (simp add: test_all_features_have_18_bands_def Let_def split: sum.splits)
  show "persisted (snd (test_all_features_start_with_january_first w)) = persisted w"
    by (simp add: test_all_features_start_with_january_first_def Let_def)
  show "persisted (snd (test_label_and_feature_ranges_match get_label_timesteps w)) = persisted w"
    using load_labels_persisted[of False w]
      ranges_loop_persisted[of get_label_timesteps "fst (load_labels False w)" True
        "snd (load_labels False w)"]
    by (auto simp: test_label_and_feature_ranges_match_def Let_def case_prod_beta split: sum.splits)
  show "persisted (snd (test_labels_have_start_before_end_date w)) = persisted w"
    using load_labels_persisted[of False w]
      dates_loop_persisted[of "fst (load_labels False w)" True "snd (load_labels False w)"]
    by (auto simp: test_labels_have_start_before_end_date_def Let_def case_prod_beta)
  show "persisted (snd (test_all_older_features_have_24_months today w)) = persisted w"
    using load_labels_persisted[of False w]
      older_loop_persisted[of today "fst (load_labels False w)" True "snd (load_labels False w)"]
    by (auto simp: test_all_older_features_have_24_months_def Let_def case_prod_beta split: sum.splits)
  show "persisted (snd (test_features_for_closeness w)) = persisted w"
    using load_labels_persisted[of False w]
      closeness_loop_persisted[of "fst (load_labels False w)" "snd (load_labels False w)"]
    by (auto simp: test_features_for_closeness_def Let_def case_prod_beta split: sum.splits)
  show "persisted (snd (test_label_coordinate_duplication w)) = persisted w"
    using load_labels_persisted[of False w]
    by (auto simp: test_label_coordinate_duplication_def Let_def case_prod_beta split: sum.splits)
qed

lemma series_apply_Inl: "series_apply f xs = Inl e \<Longrightarrow> \<exists>x\<in>set xs. f x = Inl e"
proof (induction xs)
  case Nil
  then show ?case by simp
next
  case (Cons x xs)
  then show ?case by (cases "f x") (auto split: sum.splits)
qed

lemma closeness_loop_errors:
  "fst (closeness_loop dict w) = Inl e \<Longrightarrow> e = FileNotFoundError \<or> e = AttributeError"
proof (induction dict w rule: closeness_loop.induct)
  case (1 w)
  then show ?case by simp
next
  case (2 name labels0 rest w)
  let ?labels = "filter ALREADY_EXISTS labels0"
  show ?case
  proof (cases "length ?labels = 0")
    case True
    with 2 show ?thesis by (simp add: Let_def)
  next
    case False
    show ?thesis
    proof (cases "load_features w ?labels")
      case (Inl e1)
      then obtain p where "load_feature w p = Inl e1"
        unfolding load_features_def by (blast dest: series_apply_Inl)
      then have "e1 = FileNotFoundError"
        by (auto simp: load_feature_def split: option.splits)
      with Inl False "2.prems" show ?thesis by (simp add: Let_def and_then_def)
    next
      case (Inr features)
      have attr: "e1 = AttributeError" if "series_apply (attribute g) features = Inl e1"
        for g :: "data_instance \<Rightarrow> real" and e1
      proof -
        from that obtain f where "attribute g f = Inl e1" by (blast dest: series_apply_Inl)
        then show ?thesis
          by (auto simp: attribute_def attributes_def and_then_def split: pickle.splits)
      qed
      show ?thesis
      proof (cases "series_apply (attribute instance_lon) features")
        case lon: (Inl e1)
        with Inr False "2.prems" attr[OF lon] show ?thesis by (simp add: Let_def and_then_def)
      next
        case lon: (Inr lons)
        show ?thesis
        proof (cases "series_apply (attribute instance_lat) features")
          case lat: (Inl e1)
          with Inr lon False "2.prems" attr[OF lat] show ?thesis
            by (simp add: Let_def and_then_def)
        next
          case lat: (Inr lats)
          with Inr lon False "2.prems" "2.IH" show ?thesis
            by (simp add: Let_def and_then_def)
        qed
      qed
    qed
  qed
qed

lemma closeness_assertion_never_fails:
  "fst (test_features_for_closeness w) \<noteq> Inl AssertionError"
proof
  assume a: "fst (test_features_for_closeness w) = Inl AssertionError"
  obtain r w' where c: "closeness_loop (fst (load_labels False w)) (snd (load_labels False w)) = (r, w')"
    by (cases "closeness_loop (fst (load_labels False w)) (snd (load_labels False w))")
  show False
  proof (cases r)
    case (Inl e)
    with a c have "e = AssertionError"
      by (simp add: test_features_for_closeness_def Let_def case_prod_beta)
    moreover have "e = FileNotFoundError \<or> e = AttributeError"
      using closeness_loop_errors[of "fst (load_labels False w)" "snd (load_labels False w)" e] c Inl
      by simp
    ultimately show False by auto
  next
    case (Inr u)
    with a c show False
      by (simp add: test_features_for_closeness_def Let_def case_prod_beta assertTrue_def)
  qed
qed


subsection \<open>Subset-size check\<close>

lemma path_exists_persisted: "persisted w' = persisted w \<Longrightarrow> path_exists w' = path_exists w"
  by (rule ext) (simp add: path_exists_def persisted_def)

lemma refresh_persisted:
  assumes "persisted w' = persisted w"
  shows "refresh_already_exists w' = refresh_already_exists w"
proof (rule ext)
  fix labels
  show "refresh_already_exists w' labels = refresh_already_exists w labels"
    unfolding refresh_already_exists_def path_exists_persisted[OF assms] ..
qed

lemma subset_counts_loop_eq:
  "subset_counts_loop labels counts flag =
     (flag \<and> list_all (\<lambda>(s, n). n = length (filter ALREADY_EXISTS (filter (\<lambda>l. SUBSET l = s) labels))) counts)"
proof (induction counts arbitrary: flag)
  case Nil
  show ?case by simp
next
  case (Cons a counts)
  obtain s n where a: "a = (s, n)" by (cases a)
  show ?case
  proof (cases "n = length (filter ALREADY_EXISTS (filter (\<lambda>l. SUBSET l = s) labels))")
    case True
    then show ?thesis unfolding a by (simp add: Cons.IH)
  next
    case False
    then show ?thesis unfolding a by (simp add: Cons.IH)
  qed
qed

lemma subset_loop_eq:
  "subset_loop dict flag w =
     (flag \<and> list_all (\<lambda>(name, labels0).
        subset_counts_loop (refresh_already_exists w labels0)
          (value_counts (map SUBSET (refresh_already_exists w labels0))) True) dict)"
proof (induction dict arbitrary: flag)
  case Nil
  then show ?case by simp
next
  case (Cons a dict)
  obtain name labels0 where a: "a = (name, labels0)" by (cases a)
  have "subset_counts_loop (refresh_already_exists w labels0)
          (value_counts (map SUBSET (refresh_already_exists w labels0))) flag =
        (flag \<and> subset_counts_loop (refresh_already_exists w labels0)
          (value_counts (map SUBSET (refresh_already_exists w labels0))) True)"
    by (simp add: subset_counts_loop_eq)
  then show ?case
    unfolding a by (simp add: Cons.IH Let_def conj_assoc)
qed

lemma set_unique: "set (unique xs) = set xs"
  by (simp add: unique_def)

lemma count_list_map_filter: "count_list (map g xs) v = length (filter (\<lambda>x. g x = v) xs)"
  by (induction xs) simp_all

lemma filter_filter_conj: "filter P (filter Q xs) = filter (\<lambda>x. Q x \<and> P x) xs"
  by (induction xs) simp_all

lemma subset_counts_all:
  "subset_counts_loop labels (value_counts (map SUBSET labels)) True \<longleftrightarrow>
     (\<forall>s\<in>SUBSET ` set labels.
        length (filter (\<lambda>l. SUBSET l = s) labels) =
        length (filter (\<lambda>l. SUBSET l = s \<and> ALREADY_EXISTS l) labels))"
  unfolding subset_counts_loop_eq value_counts_def list_all_iff
  by (simp add: set_unique count_list_map_filter filter_filter_conj)

lemma SUBSET_refresh:
  "SUBSET ` set (refresh_already_exists w labels) = SUBSET ` set labels"
  by (simp add: refresh_already_exists_def image_image)

text \<open>
  Claim C4, as amended. The subset-size check fails exactly when, for some loaded dataset
  and some subset tag of it, the number of labels with that tag differs from the number of
  those labels whose already-exists flag is set, the flags being those left by
  \<^const>\<open>refresh_already_exists\<close>. That refresh looks at the disk only when at least one
  flag of the table is unset: a table whose flags are all set is kept as it is, whatever
  the disk holds; otherwise every flag is recomputed from file existence.
\<close>
theorem subset_check_fails_iff:
  "fst (test_label_feature_subset_amounts w) =
     (if \<exists>(name, labels0)\<in>set (fst (load_labels True w)). \<exists>s\<in>SUBSET ` set labels0.
           length (filter (\<lambda>l. SUBSET l = s) (refresh_already_exists w labels0)) \<noteq>
           length (filter (\<lambda>l. SUBSET l = s \<and> ALREADY_EXISTS l) (refresh_already_exists w labels0))
      then Inl AssertionError else Inr ())
   \<and> refresh_already_exists w labels =
       (if list_all ALREADY_EXISTS labels then labels
        else map (\<lambda>l. l\<lparr>ALREADY_EXISTS := path_exists w (FEATURE_PATH l)\<rparr>) labels)"
proof
  let ?w' = "snd (load_labels True w)"
  let ?bad = "\<exists>(name, labels0)\<in>set (fst (load_labels True w)). \<exists>s\<in>SUBSET ` set labels0.
           length (filter (\<lambda>l. SUBSET l = s) (refresh_already_exists w labels0)) \<noteq>
           length (filter (\<lambda>l. SUBSET l = s \<and> ALREADY_EXISTS l) (refresh_already_exists w labels0))"
  have r: "refresh_already_exists ?w' = refresh_already_exists w"
    by (rule refresh_persisted) (rule load_labels_persisted)
  have "subset_loop (fst (load_labels True w)) True ?w' \<longleftrightarrow> \<not> ?bad"
    unfolding subset_loop_eq r subset_counts_all SUBSET_refresh list_all_iff
    by (simp add: case_prod_beta)
  then show "fst (test_label_feature_subset_amounts w) =
     (if ?bad then Inl AssertionError else Inr ())"
    by (simp add: test_label_feature_subset_amounts_def Let_def case_prod_beta assertTrue_def)
  show "refresh_already_exists w labels =
       (if list_all ALREADY_EXISTS labels then labels
        else map (\<lambda>l. l\<lparr>ALREADY_EXISTS := path_exists w (FEATURE_PATH l)\<rparr>) labels)"
    by (simp add: refresh_already_exists_def)
qed

text \<open>
  Claim C4 as stated fails on a table whose only label is flagged as existing while its
  feature file is absent from disk: the flag is stale, the specified check recomputes it
  and records a failure, and the source's check keeps the flag and passes.
\<close>
theorem subset_check_keeps_stale_true_flags:
  "spec_subset_check_fails
     \<lparr>datasets =
        [\<lparr>dataset = ''crops'',
          labels_file = Some
            [\<lparr>LON = 1, LAT = 0,
              START = \<lparr>year = 2020, month = 1, day = 1\<rparr>,
              END = \<lparr>year = 2021, month = 1, day = 1\<rparr>,
              SUBSET = ''training'', FEATURE_FILENAME = ''a_01_01'',
              FEATURE_PATH = ''features/a_01_01.pkl'', ALREADY_EXISTS = True\<rparr>],
          summary = ''summary''\<rparr>],
      feature_files = [], all_features = [], stdout = []\<rparr>
   \<and> fst (test_label_feature_subset_amounts
     \<lparr>datasets =
        [\<lparr>dataset = ''crops'',
          labels_file = Some
            [\<lparr>LON = 1, LAT = 0,
              START = \<lparr>year = 2020, month = 1, day = 1\<rparr>,
              END = \<lparr>year = 2021, month = 1, day = 1\<rparr>,
              SUBSET = ''training'', FEATURE_FILENAME = ''a_01_01'',
              FEATURE_PATH = ''features/a_01_01.pkl'', ALREADY_EXISTS = True\<rparr>],
          summary = ''summary''\<rparr>],
      feature_files = [], all_features = [], stdout = []\<rparr>) = Inr ()"
  by (simp add: spec_subset_check_fails_def spec_subset_amounts_differ_def
      spec_recompute_stale_def test_label_feature_subset_amounts_def load_labels_def print_def
      path_exists_def refresh_already_exists_def value_counts_def unique_def assertTrue_def)

text \<open>
  The amended statement of claim C4 at a table whose only label is flagged as missing and
  whose feature file is indeed absent: the check fails.
\<close>
theorem subset_check_fails_iff_witness:
  "fst (test_label_feature_subset_amounts
     \<lparr>datasets =
        [\<lparr>dataset = ''crops'',
          labels_file = Some
            [\<lparr>LON = 1, LAT = 0,
              START = \<lparr>year = 2020, month = 1, day = 1\<rparr>,
              END = \<lparr>year = 2021, month = 1, day = 1\<rparr>,
              SUBSET = ''training'', FEATURE_FILENAME = ''a_01_01'',
              FEATURE_PATH = ''features/a_01_01.pkl'', ALREADY_EXISTS = False\<rparr>],
          summary = ''summary''\<rparr>],
      feature_files = [], all_features = [], stdout = []\<rparr>) = Inl AssertionError"
  using subset_check_fails_iff
    [of "\<lparr>datasets =
        [\<lparr>dataset = ''crops'',
          labels_file = Some
            [\<lparr>LON = 1, LAT = 0,
              START = \<lparr>year = 2020, month = 1, day = 1\<rparr>,
              END = \<lparr>year = 2021, month = 1, day = 1\<rparr>,
              SUBSET = ''training'', FEATURE_FILENAME = ''a_01_01'',
              FEATURE_PATH = ''features/a_01_01.pkl'', ALREADY_EXISTS = False\<rparr>],
          summary = ''summary''\<rparr>],
      feature_files = [], all_features = [], stdout = []\<rparr>" "[]"]
  by (simp add: load_labels_def print_def path_exists_def refresh_already_exists_def)


subsection \<open>Historical-completeness check\<close>

lemma load_features_ok:
  assumes "\<forall>l\<in>set labels. load_feature w (FEATURE_PATH l) = Inr (DataInstance (feat l))"
  shows "load_features w labels = Inr (map (\<lambda>l. DataInstance (feat l)) labels)"
proof -
  have "map (load_feature w) (map FEATURE_PATH labels) =
        map Inr (map (\<lambda>l. DataInstance (feat l)) labels)"
    using assms by (induction labels) simp_all
  then show ?thesis
    unfolding load_features_def by (simp only: series_apply_Inr)
qed

lemma features_frame_ok:
  "features_frame (map (\<lambda>l. DataInstance (feat l)) labels) = Inr (map feat labels)"
proof -
  have "map attributes (map (\<lambda>l. DataInstance (feat l)) labels) = map Inr (map feat labels)"
    by (induction labels) (simp_all add: attributes_def)
  then show ?thesis
    unfolding features_frame_def by (simp only: series_apply_Inr)
qed

lemma non_null_arrays_map:
  "non_null_arrays (map feat labels) = List.map_filter (\<lambda>l. labelled_array (feat l)) labels"
  by (simp add: non_null_arrays_def List.map_filter_def filter_map comp_def)

lemma shape_first_ok:
  assumes "\<forall>f\<in>set arrs. f \<noteq> []"
  shows "series_apply shape_first arrs = Inr (map hd arrs)"
proof -
  have "map shape_first arrs = map Inr (map hd arrs)"
    using assms
  proof (induction arrs)
    case Nil
    then show ?case by simp
  next
    case (Cons a arrs)
    then obtain x xs where "a = x # xs" by (cases a) auto
    with Cons show ?case by (simp add: shape_first_def)
  qed
  then show ?thesis by (simp only: series_apply_Inr)
qed

lemma set_map_filter: "set (List.map_filter g xs) = {y. \<exists>x\<in>set xs. g x = Some y}"
  by (induction xs) (auto simp: List.map_filter_simps split: option.splits)

lemma month_amounts_ok:
  assumes "\<forall>l\<in>set labels. load_feature w (FEATURE_PATH l) = Inr (DataInstance (feat l))
              \<and> labelled_array (feat l) \<noteq> Some []"
  shows "and_then (and_then (load_features w labels) features_frame)
           (\<lambda>features_df. series_apply shape_first (non_null_arrays features_df)) =
         Inr (map hd (List.map_filter (\<lambda>l. labelled_array (feat l)) labels))"
proof -
  have a: "load_features w labels = Inr (map (\<lambda>l. DataInstance (feat l)) labels)"
    using assms by (intro load_features_ok) blast
  have "\<forall>f\<in>set (List.map_filter (\<lambda>l. labelled_array (feat l)) labels). f \<noteq> []"
    using assms unfolding set_map_filter by blast
  then have b: "series_apply shape_first (List.map_filter (\<lambda>l. labelled_array (feat l)) labels) =
      Inr (map hd (List.map_filter (\<lambda>l. labelled_array (feat l)) labels))"
    by (rule shape_first_ok)
  show ?thesis
    by (simp add: and_then_def a features_frame_ok non_null_arrays_map b)
qed

lemma unique_months_24:
  "unique (map hd (List.map_filter (\<lambda>l. labelled_array (feat l)) labels)) = [24] \<longleftrightarrow>
     (\<exists>l\<in>set labels. labelled_array (feat l) \<noteq> None) \<and>
     (\<forall>l\<in>set labels. \<forall>f. labelled_array (feat l) = Some f \<longrightarrow> hd f = 24)"
proof -
  let ?arrs = "List.map_filter (\<lambda>l. labelled_array (feat l)) labels"
  have ne: "?arrs \<noteq> [] \<longleftrightarrow> (\<exists>l\<in>set labels. labelled_array (feat l) \<noteq> None)"
  proof -
    have "?arrs \<noteq> [] \<longleftrightarrow> set ?arrs \<noteq> {}" by simp
    also have "\<dots> \<longleftrightarrow> (\<exists>l\<in>set labels. labelled_array (feat l) \<noteq> None)"
      unfolding set_map_filter by blast
    finally show ?thesis .
  qed
  have al: "(\<forall>f\<in>set ?arrs. hd f = 24) \<longleftrightarrow>
      (\<forall>l\<in>set labels. \<forall>f. labelled_array (feat l) = Some f \<longrightarrow> hd f = 24)"
    unfolding set_map_filter by blast
  have "unique (map hd ?arrs) = [24] \<longleftrightarrow> map hd ?arrs \<noteq> [] \<and> set (map hd ?arrs) = {24}"
    by (rule unique_singleton)
  also have "\<dots> \<longleftrightarrow> ?arrs \<noteq> [] \<and> (\<forall>f\<in>set ?arrs. hd f = 24)"
    unfolding set_map_singleton by simp
  finally show ?thesis unfolding ne al .
qed

lemma older_loop_result:
  assumes "\<forall>(name, labels0)\<in>set dict. \<forall>l\<in>set labels0.
             ALREADY_EXISTS l \<and> date_less (START l) (two_years_before_cutoff today) \<longrightarrow>
             load_feature w (FEATURE_PATH l) = Inr (DataInstance (feat l)) \<and>
             labelled_array (feat l) \<noteq> Some []"
  shows "fst (older_loop today dict flag w) =
     Inr (flag \<and> (\<forall>(name, labels0)\<in>set dict.
        filter (\<lambda>l. ALREADY_EXISTS l \<and> date_less (START l) (two_years_before_cutoff today)) labels0 = [] \<or>
        unique (map hd (List.map_filter (\<lambda>l. labelled_array (feat l))
          (filter (\<lambda>l. ALREADY_EXISTS l \<and> date_less (START l) (two_years_before_cutoff today)) labels0)))
          = [24]))"
  using assms
proof (induction dict arbitrary: flag w)
  case Nil
  then show ?case by simp
next
  case (Cons a dict)
  obtain name labels0 where a: "a = (name, labels0)" by (cases a)
  let ?labels = "filter (\<lambda>l. ALREADY_EXISTS l \<and> date_less (START l) (two_years_before_cutoff today)) labels0"
  have rest: "\<forall>(name, labels0)\<in>set dict. \<forall>l\<in>set labels0.
             ALREADY_EXISTS l \<and> date_less (START l) (two_years_before_cutoff today) \<longrightarrow>
             load_feature w' (FEATURE_PATH l) = Inr (DataInstance (feat l)) \<and>
             labelled_array (feat l) \<noteq> Some []" if "load_feature w' = load_feature w" for w'
    using Cons.prems that by simp
  show ?case
  proof (cases "?labels = []")
    case True
    have "fst (older_loop today (a # dict) flag w) = fst (older_loop today dict flag w)"
      unfolding a using True by (simp add: Let_def)
    also note Cons.IH[OF rest[OF refl], of flag]
    finally show ?thesis unfolding a using True by simp
  next
    case False
    have "\<forall>l\<in>set ?labels. load_feature w (FEATURE_PATH l) = Inr (DataInstance (feat l))
              \<and> labelled_array (feat l) \<noteq> Some []"
      using Cons.prems unfolding a by simp
    note m = month_amounts_ok[OF this]
    let ?ok = "unique (map hd (List.map_filter (\<lambda>l. labelled_array (feat l)) ?labels)) = [24]"
    let ?w' = "print (MonthStatus ?ok name
        (unique (map hd (List.map_filter (\<lambda>l. labelled_array (feat l)) ?labels)))) w"
    have "fst (older_loop today (a # dict) flag w) =
          fst (older_loop today dict (flag \<and> ?ok) ?w')"
      unfolding a using False by (simp add: Let_def m)
    also have "\<dots> = Inr ((flag \<and> ?ok) \<and> (\<forall>(name, labels0)\<in>set dict.
        filter (\<lambda>l. ALREADY_EXISTS l \<and> date_less (START l) (two_years_before_cutoff today)) labels0 = [] \<or>
        unique (map hd (List.map_filter (\<lambda>l. labelled_array (feat l))
          (filter (\<lambda>l. ALREADY_EXISTS l \<and> date_less (START l) (two_years_before_cutoff today)) labels0)))
          = [24]))"
      by (rule Cons.IH[OF rest]) simp
    finally show ?thesis unfolding a using False by (simp add: conj_assoc)
  qed
qed

lemma load_feature_persisted: "persisted w' = persisted w \<Longrightarrow> load_feature w' = load_feature w"
  by (rule ext) (simp add: load_feature_def persisted_def)

text \<open>
  Claim C6, as amended. Suppose every label that is flagged as existing and starts before
  \<^const>\<open>two_years_before_cutoff\<close> loads as a data instance whose array, if present, is not
  empty. Then the historical-completeness check fails exactly when some dataset has such a
  label and either none of these labels has an array or one of them has an array whose
  first dimension is not 24. The date compared with is the first day of today's month, less
  three months, less twenty-four months.
\<close>
theorem older_check_fails_iff:
  assumes "\<forall>(name, labels)\<in>set (fst (load_labels False w)). \<forall>l\<in>set labels.
             ALREADY_EXISTS l \<and> date_less (START l) (two_years_before_cutoff today) \<longrightarrow>
             load_feature w (FEATURE_PATH l) = Inr (DataInstance (feat l)) \<and>
             labelled_array (feat l) \<noteq> Some []"
  shows "fst (test_all_older_features_have_24_months today w) =
     (if \<exists>(name, labels)\<in>set (fst (load_labels False w)).
           (\<exists>l\<in>set labels. ALREADY_EXISTS l \<and> date_less (START l) (two_years_before_cutoff today)) \<and>
           ((\<forall>l\<in>set labels.
                ALREADY_EXISTS l \<and> date_less (START l) (two_years_before_cutoff today) \<longrightarrow>
                labelled_array (feat l) = None) \<or>
            (\<exists>l\<in>set labels.
                (ALREADY_EXISTS l \<and> date_less (START l) (two_years_before_cutoff today)) \<and>
                (\<exists>f. labelled_array (feat l) = Some f \<and> shape_first f \<noteq> Inr 24)))
      then Inl AssertionError else Inr ())
    \<and> two_years_before_cutoff today =
        relativedelta_months (relativedelta_months (today\<lparr>day := 1\<rparr>) (- 3)) (- 24)"
proof
  let ?dict = "fst (load_labels False w)"
  let ?w' = "snd (load_labels False w)"
  let ?P = "\<lambda>l. ALREADY_EXISTS l \<and> date_less (START l) (two_years_before_cutoff today)"
  have lf: "load_feature ?w' = load_feature w"
    by (rule load_feature_persisted) (rule load_labels_persisted)
  have hyp: "\<forall>(name, labels)\<in>set ?dict. \<forall>l\<in>set labels. ?P l \<longrightarrow>
             load_feature ?w' (FEATURE_PATH l) = Inr (DataInstance (feat l)) \<and>
             labelled_array (feat l) \<noteq> Some []"
    unfolding lf by (rule assms)
  note loop = older_loop_result[OF hyp, of True]
  have sf: "shape_first f = Inr 24 \<longleftrightarrow> hd f = 24" if "f \<noteq> []" for f
    using that by (cases f) (simp_all add: shape_first_def)
  have per: "(filter ?P labels = [] \<or>
        unique (map hd (List.map_filter (\<lambda>l. labelled_array (feat l)) (filter ?P labels))) = [24])
      \<longleftrightarrow> \<not> ((\<exists>l\<in>set labels. ?P l) \<and>
           ((\<forall>l\<in>set labels. ?P l \<longrightarrow> labelled_array (feat l) = None) \<or>
            (\<exists>l\<in>set labels. ?P l \<and> (\<exists>f. labelled_array (feat l) = Some f \<and> shape_first f \<noteq> Inr 24))))"
    if "(name, labels) \<in> set ?dict" for name labels
  proof -
    have ne: "\<forall>l\<in>set labels. ?P l \<longrightarrow> labelled_array (feat l) \<noteq> Some []"
      using assms that by blast
    have e: "filter ?P labels = [] \<longleftrightarrow> \<not> (\<exists>l\<in>set labels. ?P l)"
      by (simp add: filter_empty_conv)
    have "(\<forall>l\<in>set (filter ?P labels). \<forall>f. labelled_array (feat l) = Some f \<longrightarrow> hd f = 24) \<longleftrightarrow>
          \<not> (\<exists>l\<in>set labels. ?P l \<and> (\<exists>f. labelled_array (feat l) = Some f \<and> shape_first f \<noteq> Inr 24))"
    proof -
      have k: "shape_first f = Inr 24 \<longleftrightarrow> hd f = 24"
        if "l \<in> set labels" "?P l" "labelled_array (feat l) = Some f" for l f
      proof -
        from ne that have "f \<noteq> []" by auto
        then show ?thesis by (rule sf)
      qed
      show ?thesis unfolding set_filter using k by blast
    qed
    moreover have "(\<exists>l\<in>set (filter ?P labels). labelled_array (feat l) \<noteq> None) \<longleftrightarrow>
          \<not> (\<forall>l\<in>set labels. ?P l \<longrightarrow> labelled_array (feat l) = None)"
      by auto
    ultimately show ?thesis
      unfolding unique_months_24 e by blast
  qed
  have "(\<forall>(name, labels)\<in>set ?dict. filter ?P labels = [] \<or>
        unique (map hd (List.map_filter (\<lambda>l. labelled_array (feat l)) (filter ?P labels))) = [24])
     \<longleftrightarrow> \<not> (\<exists>(name, labels)\<in>set ?dict.
           (\<exists>l\<in>set labels. ?P l) \<and>
           ((\<forall>l\<in>set labels. ?P l \<longrightarrow> labelled_array (feat l) = None) \<or>
            (\<exists>l\<in>set labels. ?P l \<and> (\<exists>f. labelled_array (feat l) = Some f \<and> shape_first f \<noteq> Inr 24))))"
  proof -
    have "\<And>x A B. x \<in> set ?dict \<Longrightarrow> (fst x, snd x) \<in> set ?dict" by simp
    then show ?thesis
      unfolding case_prod_beta using per by blast
  qed
  then show "fst (test_all_older_features_have_24_months today w) =
     (if \<exists>(name, labels)\<in>set ?dict.
           (\<exists>l\<in>set labels. ?P l) \<and>
           ((\<forall>l\<in>set labels. ?P l \<longrightarrow> labelled_array (feat l) = None) \<or>
            (\<exists>l\<in>set labels. ?P l \<and> (\<exists>f. labelled_array (feat l) = Some f \<and> shape_first f \<noteq> Inr 24)))
      then Inl AssertionError else Inr ())"
    using loop
    by (cases "older_loop today ?dict True ?w'")
       (simp add: test_all_older_features_have_24_months_def Let_def case_prod_beta assertTrue_def)
  show "two_years_before_cutoff today =
        relativedelta_months (relativedelta_months (today\<lparr>day := 1\<rparr>) (- 3)) (- 24)"
    by (simp add: two_years_before_cutoff_def current_cutoff_date_def)
qed

text \<open>
  Claim C6 as stated fails in both directions on 4 November 2026. A label starting on
  2 August 2024 with a 12-step array is older than today minus 27 months, so the specified
  check fails, but it is not older than 1 August 2024 and the source's check passes. A label
  starting in 2000 whose feature has no array gives the specified check nothing to object
  to, and the source's check fails on it.
\<close>
theorem older_check_differs_from_claim:
  "spec_older_check_fails \<lparr>year = 2026, month = 11, day = 4\<rparr>
     \<lparr>datasets =
        [\<lparr>dataset = ''crops'',
          labels_file = Some
            [\<lparr>LON = 1, LAT = 0,
              START = \<lparr>year = 2024, month = 8, day = 2\<rparr>,
              END = \<lparr>year = 2025, month = 8, day = 2\<rparr>,
              SUBSET = ''training'', FEATURE_FILENAME = ''a_01_01'',
              FEATURE_PATH = ''features/a_01_01.pkl'', ALREADY_EXISTS = True\<rparr>],
          summary = ''summary''\<rparr>],
      feature_files =
        [(''features/a_01_01.pkl'',
          DataInstance \<lparr>instance_lon = 1, instance_lat = 0, labelled_array = Some [12, 18],
            source_file = ''a.tif''\<rparr>)],
      all_features = [], stdout = []\<rparr>
   \<and> fst (test_all_older_features_have_24_months \<lparr>year = 2026, month = 11, day = 4\<rparr>
     \<lparr>datasets =
        [\<lparr>dataset = ''crops'',
          labels_file = Some
            [\<lparr>LON = 1, LAT = 0,
              START = \<lparr>year = 2024, month = 8, day = 2\<rparr>,
              END = \<lparr>year = 2025, month = 8, day = 2\<rparr>,
              SUBSET = ''training'', FEATURE_FILENAME = ''a_01_01'',
              FEATURE_PATH = ''features/a_01_01.pkl'', ALREADY_EXISTS = True\<rparr>],
          summary = ''summary''\<rparr>],
      feature_files =
        [(''features/a_01_01.pkl'',
          DataInstance \<lparr>instance_lon = 1, instance_lat = 0, labelled_array = Some [12, 18],
            source_file = ''a.tif''\<rparr>)],
      all_features = [], stdout = []\<rparr>) = Inr ()
   \<and> \<not> spec_older_check_fails \<lparr>year = 2026, month = 11, day = 4\<rparr>
     \<lparr>datasets =
        [\<lparr>dataset = ''crops'',
          labels_file = Some
            [\<lparr>LON = 1, LAT = 0,
              START = \<lparr>year = 2000, month = 1, day = 1\<rparr>,
              END = \<lparr>year = 2001, month = 1, day = 1\<rparr>,
              SUBSET = ''training'', FEATURE_FILENAME = ''a_01_01'',
              FEATURE_PATH = ''features/a_01_01.pkl'', ALREADY_EXISTS = True\<rparr>],
          summary = ''summary''\<rparr>],
      feature_files =
        [(''features/a_01_01.pkl'',
          DataInstance \<lparr>instance_lon = 1, instance_lat = 0, labelled_array = None,
            source_file = ''a.tif''\<rparr>)],
      all_features = [], stdout = []\<rparr>
   \<and> fst (test_all_older_features_have_24_months \<lparr>year = 2026, month = 11, day = 4\<rparr>
     \<lparr>datasets =
        [\<lparr>dataset = ''crops'',
          labels_file = Some
            [\<lparr>LON = 1, LAT = 0,
              START = \<lparr>year = 2000, month = 1, day = 1\<rparr>,
              END = \<lparr>year = 2001, month = 1, day = 1\<rparr>,
              SUBSET = ''training'', FEATURE_FILENAME = ''a_01_01'',
              FEATURE_PATH = ''features/a_01_01.pkl'', ALREADY_EXISTS = True\<rparr>],
          summary = ''summary''\<rparr>],
      feature_files =
        [(''features/a_01_01.pkl'',
          DataInstance \<lparr>instance_lon = 1, instance_lat = 0, labelled_array = None,
            source_file = ''a.tif''\<rparr>)],
      all_features = [], stdout = []\<rparr>) = Inl AssertionError"
  by (simp add: spec_older_check_fails_def test_all_older_features_have_24_months_def
      load_labels_def print_def load_feature_def load_features_def features_frame_def
      attributes_def and_then_def non_null_arrays_def List.map_filter_def shape_first_def
      unique_def assertTrue_def two_years_before_cutoff_def current_cutoff_date_def
      relativedelta_months_def monthrange_def isleap_def date_less_def)

text \<open>
  The amended statement of claim C6 on 4 November 2026, at a label starting in 2000 whose
  feature array has 12 time steps: the check fails.
\<close>
theorem older_check_fails_iff_witness:
  "fst (test_all_older_features_have_24_months \<lparr>year = 2026, month = 11, day = 4\<rparr>
     \<lparr>datasets =
        [\<lparr>dataset = ''crops'',
          labels_file = Some
            [\<lparr>LON = 1, LAT = 0,
              START = \<lparr>year = 2000, month = 1, day = 1\<rparr>,
              END = \<lparr>year = 2001, month = 1, day = 1\<rparr>,
              SUBSET = ''training'', FEATURE_FILENAME = ''a_01_01'',
              FEATURE_PATH = ''features/a_01_01.pkl'', ALREADY_EXISTS = True\<rparr>],
          summary = ''summary''\<rparr>],
      feature_files =
        [(''features/a_01_01.pkl'',
          DataInstance \<lparr>instance_lon = 1, instance_lat = 0, labelled_array = Some [12, 18],
            source_file = ''a.tif''\<rparr>)],
      all_features = [], stdout = []\<rparr>) = Inl AssertionError"
  using older_check_fails_iff
    [of "\<lparr>datasets =
        [\<lparr>dataset = ''crops'',
          labels_file = Some
            [\<lparr>LON = 1, LAT = 0,
              START = \<lparr>year = 2000, month = 1, day = 1\<rparr>,
              END = \<lparr>year = 2001, month = 1, day = 1\<rparr>,
              SUBSET = ''training'', FEATURE_FILENAME = ''a_01_01'',
              FEATURE_PATH = ''features/a_01_01.pkl'', ALREADY_EXISTS = True\<rparr>],
          summary = ''summary''\<rparr>],
      feature_files =
        [(''features/a_01_01.pkl'',
          DataInstance \<lparr>instance_lon = 1, instance_lat = 0, labelled_array = Some [12, 18],
            source_file = ''a.tif''\<rparr>)],
      all_features = [], stdout = []\<rparr>"
     "\<lparr>year = 2026, month = 11, day = 4\<rparr>"
     "\<lambda>l. \<lparr>instance_lon = 1, instance_lat = 0, labelled_array = Some [12, 18],
            source_file = ''a.tif''\<rparr>"]
  by (simp add: load_labels_def print_def load_feature_def shape_first_def
      two_years_before_cutoff_def current_cutoff_date_def
      relativedelta_months_def monthrange_def isleap_def date_less_def)


subsection \<open>Datasets skipped while loading\<close>

lemma load_labels_loop_dict:
  "fst (load_labels_loop is_print ds acc w) = fst (load_labels_loop is_print' ds acc w')"
proof (induction ds arbitrary: acc w w')
  case Nil
  show ?case by simp
next
  case (Cons d ds)
  show ?case
  proof (cases "labels_file d")
    case None
    then show ?thesis using Cons.IH[of acc w w'] by simp
  next
    case (Some labels)
    then show ?thesis
      using Cons.IH[of "AList.update (dataset d) labels acc"
          "if is_print then print (Summary (summary d)) w else w"
          "if is_print' then print (Summary (summary d)) w' else w'"]
      by simp
  qed
qed

lemma load_labels_loop_skips:
  "labels_file d = None \<Longrightarrow>
   fst (load_labels_loop is_print (removeAll d ds) acc w) = fst (load_labels_loop is_print ds acc w)"
proof (induction ds arbitrary: acc w)
  case Nil
  show ?case by simp
next
  case (Cons x ds)
  note ih = Cons.IH[OF Cons.prems]
  show ?case
  proof (cases "x = d")
    case True
    with Cons.prems ih show ?thesis by simp
  next
    case False
    show ?thesis
    proof (cases "labels_file x")
      case None
      with False ih show ?thesis by simp
    next
      case (Some labels)
      with False
        ih[of "AList.update (dataset x) labels acc"
              "if is_print then print (Summary (summary x)) w else w"]
      show ?thesis by simp
    qed
  qed
qed

lemma set_feature_names:
  "set (feature_names dict acc) =
     set acc \<union> (\<Union>(name, labels)\<in>set dict. FEATURE_FILENAME ` set labels)"
proof (induction dict arbitrary: acc)
  case Nil
  show ?case by simp
next
  case (Cons a dict)
  obtain name labels where a: "a = (name, labels)" by (cases a)
  show ?case unfolding a by (simp add: Cons.IH Un_assoc)
qed

lemma all_features_persisted: "persisted w' = persisted w \<Longrightarrow> all_features w' = all_features w"
  by (simp add: persisted_def)

text \<open>
  Claim C10. A dataset whose label file is missing contributes nothing to the loaded label
  tables: loading with it gives the same tables as loading without it. A feature row whose
  filename stem is referenced by none of the loaded tables, as is every feature that
  belongs only to the skipped dataset, is therefore counted as an orphan, and the
  orphan-feature check fails.
\<close>
theorem skipped_dataset_features_are_orphans:
  assumes "d \<in> set (datasets w)" and "labels_file d = None"
    and "r \<in> set (all_features w)"
    and "\<forall>(name, labels)\<in>set (fst (load_labels False w)).
           stem (filename r) \<notin> FEATURE_FILENAME ` set labels"
  shows "fst (load_labels False w) =
           fst (load_labels False (w\<lparr>datasets := removeAll d (datasets w)\<rparr>))
       \<and> fst (test_features_with_no_labels w) = Inl AssertionError"
proof
  have "fst (load_labels_loop False (removeAll d (datasets w)) []
              (print Blank (w\<lparr>datasets := removeAll d (datasets w)\<rparr>))) =
        fst (load_labels_loop False (removeAll d (datasets w)) [] (print Blank w))"
    by (rule load_labels_loop_dict)
  also have "\<dots> = fst (load_labels_loop False (datasets w) [] (print Blank w))"
    using assms(2) by (rule load_labels_loop_skips)
  finally show "fst (load_labels False w) =
           fst (load_labels False (w\<lparr>datasets := removeAll d (datasets w)\<rparr>))"
    by (simp add: load_labels_def)
next
  let ?dict = "fst (load_labels False w)"
  let ?w' = "snd (load_labels False w)"
  have af: "all_features ?w' = all_features w"
    by (rule all_features_persisted) (rule load_labels_persisted)
  have "stem (filename r) \<notin> set (feature_names ?dict [])"
    using assms(4) unfolding set_feature_names by (auto simp: case_prod_beta)
  with assms(3) have "r \<in> set (filter (\<lambda>r. stem (filename r) \<notin> set (feature_names ?dict []))
      (all_features w))"
    by simp
  then have "length (filter (\<lambda>r. stem (filename r) \<notin> set (feature_names ?dict []))
      (all_features w)) \<noteq> 0"
    by (metis length_0_conv empty_iff list.set(1))
  then show "fst (test_features_with_no_labels w) = Inl AssertionError"
    by (simp add: test_features_with_no_labels_def Let_def case_prod_beta af assertTrue_def)
qed

text \<open>
  Claim C10 at a single dataset whose label file is missing and one feature file produced
  for it: the orphan-feature check fails.
\<close>
theorem skipped_dataset_features_are_orphans_witness:
  "fst (test_features_with_no_labels
     \<lparr>datasets = [\<lparr>dataset = ''crops'', labels_file = None, summary = ''summary''\<rparr>],
      feature_files = [],
      all_features = [\<lparr>instance_lon = 0, instance_lat = 0, labelled_array = Some [24, 18],
                       source_file = ''a.tif'', filename = ''features/a_01_01.pkl''\<rparr>],
      stdout = []\<rparr>) = Inl AssertionError"
  using skipped_dataset_features_are_orphans
    [of "\<lparr>dataset = ''crops'', labels_file = None, summary = ''summary''\<rparr>"
        "\<lparr>datasets = [\<lparr>dataset = ''crops'', labels_file = None, summary = ''summary''\<rparr>],
          feature_files = [],
          all_features = [\<lparr>instance_lon = 0, instance_lat = 0, labelled_array = Some [24, 18],
                       source_file = ''a.tif'', filename = ''features/a_01_01.pkl''\<rparr>],
          stdout = []\<rparr>"
        "\<lparr>instance_lon = 0, instance_lat = 0, labelled_array = Some [24, 18],
                       source_file = ''a.tif'', filename = ''features/a_01_01.pkl''\<rparr>"]
  by (simp add: load_labels_def print_def)

end
